theory Spec2Isabelle
  imports Main
begin

section \<open>Data model\<close>

text \<open>
  The interfaces of \<^verbatim>\<open>src/types/index.ts\<close>. The components declare the same
  interfaces again, field for field, in their own modules; TypeScript types are
  structural, so one record stands for both declarations. The field \<^verbatim>\<open>id\<close> is
  written \<open>id'\<close>, since \<open>id\<close> is the identity function of HOL. Field names that
  several interfaces share are always written with the record's name in front.

  A string is the list of the bytes of its UTF-8 encoding; characters outside
  ASCII (the pictographs used as icons) are written byte by byte.
\<close>

record NavLink =
  href :: string
  label :: string

record Service =
  id' :: string
  title :: string
  description :: string
  icon :: string

record Feature =
  id' :: string
  icon :: string
  title :: string
  description :: string

record Testimonial =
  id' :: string
  quote :: string
  name :: string
  role :: string
  avatar :: string

record FooterLink =
  label :: string
  href :: string

record FooterColumn =
  title :: string
  links :: "FooterLink list"

record SocialLink =
  icon :: string
  label :: string
  href :: string

text \<open>The interface \<^verbatim>\<open>ServiceOption\<close> of \<^verbatim>\<open>Hero.tsx\<close>.\<close>

record ServiceOption =
  icon :: string
  label :: string

section \<open>The central registry: \<^verbatim>\<open>src/constants/index.ts\<close>\<close>

definition constants_NAV_LINKS :: "NavLink list" where
  "constants_NAV_LINKS =
    [\<lparr>NavLink.href = ''/enterprise'', NavLink.label = ''For Enterprise''\<rparr>,
     \<lparr>NavLink.href = ''/partners'', NavLink.label = ''Delivery Partners''\<rparr>,
     \<lparr>NavLink.href = ''/support'', NavLink.label = ''Support''\<rparr>]"

definition constants_SERVICES :: "Service list" where
  "constants_SERVICES =
    [\<lparr>Service.id' = ''two-wheeler'',
      Service.title = ''2 Wheeler'',
      Service.description = ''Send packages up to 20kg anytime, anywhere in the city.'',
      Service.icon = [CHR 0xF0, CHR 0x9F, CHR 0x8F, CHR 0x8D, CHR 0xEF, CHR 0xB8, CHR 0x8F]\<rparr>,
     \<lparr>Service.id' = ''trucks'',
      Service.title = ''Trucks'',
      Service.description = ''Rent Tata Ace, 8ft Pickup, and more for goods movement.'',
      Service.icon = [CHR 0xF0, CHR 0x9F, CHR 0x9A, CHR 0x9A]\<rparr>,
     \<lparr>Service.id' = ''packers-movers'',
      Service.title = ''Packers & Movers'',
      Service.description = ''Shift your house or office with our safe and reliable services.'',
      Service.icon = [CHR 0xF0, CHR 0x9F, CHR 0x93, CHR 0xA6]\<rparr>,
     \<lparr>Service.id' = ''enterprise'',
      Service.title = ''Enterprise'',
      Service.description = ''Logistics solutions for businesses of all sizes.'',
      Service.icon = [CHR 0xF0, CHR 0x9F, CHR 0x8F, CHR 0xA2]\<rparr>]"

definition constants_FEATURES :: "Feature list" where
  "constants_FEATURES =
    [\<lparr>Feature.id' = ''on-time-delivery'',
      Feature.icon = [CHR 0xE2, CHR 0x8F, CHR 0xB1, CHR 0xEF, CHR 0xB8, CHR 0x8F],
      Feature.title = ''On-Time Delivery'',
      Feature.description =
        ''Reliable service that ensures your goods reach their destination on time, every time.''\<rparr>,
     \<lparr>Feature.id' = ''real-time-tracking'',
      Feature.icon = [CHR 0xF0, CHR 0x9F, CHR 0x93, CHR 0x8D],
      Feature.title = ''Real-time Tracking'',
      Feature.description =
        ''Track your goods in real-time and stay updated with the location of your package.''\<rparr>,
     \<lparr>Feature.id' = ''economical-pricing'',
      Feature.icon = [CHR 0xF0, CHR 0x9F, CHR 0x92, CHR 0xB0],
      Feature.title = ''Economical Pricing'',
      Feature.description =
        ''Get the best rates in the market with transparent pricing and no hidden charges.''\<rparr>]"

definition constants_TESTIMONIALS :: "Testimonial list" where
  "constants_TESTIMONIALS =
    [\<lparr>Testimonial.id' = ''testimonial-1'',
      Testimonial.quote =
        ''Porter has completely transformed how we manage our logistics. The real-time tracking is a game changer for our business.'',
      Testimonial.name = ''Rajesh Kumar'',
      Testimonial.role = ''Business Owner'',
      Testimonial.avatar = ''RK''\<rparr>,
     \<lparr>Testimonial.id' = ''testimonial-2'',
      Testimonial.quote =
        ''Excellent service! The driver was polite and helpful. I moved my entire house with Porter and it was hassle-free.'',
      Testimonial.name = ''Priya Singh'',
      Testimonial.role = ''Home Maker'',
      Testimonial.avatar = ''PS''\<rparr>,
     \<lparr>Testimonial.id' = ''testimonial-3'',
      Testimonial.quote =
        ''Affordable and reliable. I use Porter for all my ad-hoc delivery needs. Highly recommended.'',
      Testimonial.name = ''Amit Patel'',
      Testimonial.role = ''Freelancer'',
      Testimonial.avatar = ''AP''\<rparr>]"

definition constants_FOOTER_COLUMNS :: "FooterColumn list" where
  "constants_FOOTER_COLUMNS =
    [\<lparr>FooterColumn.title = ''Company'',
      FooterColumn.links =
        [\<lparr>FooterLink.label = ''About Us'', FooterLink.href = ''/about''\<rparr>,
         \<lparr>FooterLink.label = ''Offers'', FooterLink.href = ''/offers''\<rparr>,
         \<lparr>FooterLink.label = ''Careers'', FooterLink.href = ''/careers''\<rparr>,
         \<lparr>FooterLink.label = ''Blog'', FooterLink.href = ''/blog''\<rparr>]\<rparr>,
     \<lparr>FooterColumn.title = ''Services'',
      FooterColumn.links =
        [\<lparr>FooterLink.label = ''City Tempo'', FooterLink.href = ''/services/city-tempo''\<rparr>,
         \<lparr>FooterLink.label = ''Packers & Movers'', FooterLink.href = ''/services/packers-movers''\<rparr>,
         \<lparr>FooterLink.label = ''Driver Partners'', FooterLink.href = ''/partners''\<rparr>,
         \<lparr>FooterLink.label = ''Enterprise'', FooterLink.href = ''/enterprise''\<rparr>]\<rparr>,
     \<lparr>FooterColumn.title = ''Support'',
      FooterColumn.links =
        [\<lparr>FooterLink.label = ''Help Center'', FooterLink.href = ''/help''\<rparr>,
         \<lparr>FooterLink.label = ''Contact Us'', FooterLink.href = ''/contact''\<rparr>,
         \<lparr>FooterLink.label = ''Privacy Policy'', FooterLink.href = ''/privacy''\<rparr>,
         \<lparr>FooterLink.label = ''Terms of Service'', FooterLink.href = ''/terms''\<rparr>]\<rparr>,
     \<lparr>FooterColumn.title = ''Download App'',
      FooterColumn.links =
        [\<lparr>FooterLink.label = ''Android'', FooterLink.href = ''https://play.google.com/store''\<rparr>,
         \<lparr>FooterLink.label = ''iOS'', FooterLink.href = ''https://apps.apple.com''\<rparr>]\<rparr>]"

definition constants_SOCIAL_LINKS :: "SocialLink list" where
  "constants_SOCIAL_LINKS =
    [\<lparr>SocialLink.icon = ''F'', SocialLink.label = ''Facebook'', SocialLink.href = ''#''\<rparr>,
     \<lparr>SocialLink.icon = ''T'', SocialLink.label = ''Twitter'', SocialLink.href = ''#''\<rparr>,
     \<lparr>SocialLink.icon = ''I'', SocialLink.label = ''Instagram'', SocialLink.href = ''#''\<rparr>,
     \<lparr>SocialLink.icon = ''L'', SocialLink.label = ''LinkedIn'', SocialLink.href = ''#''\<rparr>]"


definition constants_SERVICE_OPTIONS :: "ServiceOption list" where
  "constants_SERVICE_OPTIONS =
    [\<lparr>ServiceOption.icon = [CHR 0xF0, CHR 0x9F, CHR 0x9A, CHR 0x9A], ServiceOption.label = ''Truck''\<rparr>,
     \<lparr>ServiceOption.icon = [CHR 0xF0, CHR 0x9F, CHR 0x9B, CHR 0xB5], ServiceOption.label = ''Two Wheeler''\<rparr>,
     \<lparr>ServiceOption.icon = [CHR 0xF0, CHR 0x9F, CHR 0x93, CHR 0xA6], ServiceOption.label = ''Packers & Movers''\<rparr>]"

section \<open>The literals of the component modules\<close>

text \<open>\<^verbatim>\<open>Header.tsx\<close>\<close>

definition NAV_LINKS :: "NavLink list" where
  "NAV_LINKS =
    [\<lparr>NavLink.href = ''/enterprise'', NavLink.label = ''For Enterprise''\<rparr>,
     \<lparr>NavLink.href = ''/partners'', NavLink.label = ''Delivery Partners''\<rparr>,
     \<lparr>NavLink.href = ''/support'', NavLink.label = ''Support''\<rparr>]"

text \<open>\<^verbatim>\<open>Hero.tsx\<close>\<close>

definition SERVICE_OPTIONS :: "ServiceOption list" where
  "SERVICE_OPTIONS =
    [\<lparr>ServiceOption.icon = [CHR 0xF0, CHR 0x9F, CHR 0x9A, CHR 0x9A], ServiceOption.label = ''Truck''\<rparr>,
     \<lparr>ServiceOption.icon = [CHR 0xF0, CHR 0x9F, CHR 0x9B, CHR 0xB5], ServiceOption.label = ''Two Wheeler''\<rparr>,
     \<lparr>ServiceOption.icon = [CHR 0xF0, CHR 0x9F, CHR 0x93, CHR 0xA6], ServiceOption.label = ''Packers & Movers''\<rparr>]"

definition DEFAULT_CITY :: string where
  "DEFAULT_CITY = ''Ahmedabad''"

text \<open>\<^verbatim>\<open>Services.tsx\<close>\<close>

definition SERVICES :: "Service list" where
  "SERVICES =
    [\<lparr>Service.id' = ''two-wheeler'',
      Service.title = ''2 Wheeler'',
      Service.description = ''Send packages up to 20kg anytime, anywhere in the city.'',
      Service.icon = [CHR 0xF0, CHR 0x9F, CHR 0x8F, CHR 0x8D, CHR 0xEF, CHR 0xB8, CHR 0x8F]\<rparr>,
     \<lparr>Service.id' = ''trucks'',
      Service.title = ''Trucks'',
      Service.description = ''Rent Tata Ace, 8ft Pickup, and more for goods movement.'',
      Service.icon = [CHR 0xF0, CHR 0x9F, CHR 0x9A, CHR 0x9A]\<rparr>,
     \<lparr>Service.id' = ''packers-movers'',
      Service.title = ''Packers & Movers'',
      Service.description = ''Shift your house or office with our safe and reliable services.'',
      Service.icon = [CHR 0xF0, CHR 0x9F, CHR 0x93, CHR 0xA6]\<rparr>,
     \<lparr>Service.id' = ''enterprise'',
      Service.title = ''Enterprise'',
      Service.description = ''Logistics solutions for businesses of all sizes.'',
      Service.icon = [CHR 0xF0, CHR 0x9F, CHR 0x8F, CHR 0xA2]\<rparr>]"

text \<open>\<^verbatim>\<open>Features.tsx\<close>\<close>

definition FEATURES :: "Feature list" where
  "FEATURES =
    [\<lparr>Feature.id' = ''on-time-delivery'',
      Feature.icon = [CHR 0xE2, CHR 0x8F, CHR 0xB1, CHR 0xEF, CHR 0xB8, CHR 0x8F],
      Feature.title = ''On-Time Delivery'',
      Feature.description =
        ''Reliable service that ensures your goods reach their destination on time, every time.''\<rparr>,
     \<lparr>Feature.id' = ''real-time-tracking'',
      Feature.icon = [CHR 0xF0, CHR 0x9F, CHR 0x93, CHR 0x8D],
      Feature.title = ''Real-time Tracking'',
      Feature.description =
        ''Track your goods in real-time and stay updated with the location of your package.''\<rparr>,
     \<lparr>Feature.id' = ''economical-pricing'',
      Feature.icon = [CHR 0xF0, CHR 0x9F, CHR 0x92, CHR 0xB0],
      Feature.title = ''Economical Pricing'',
      Feature.description =
        ''Get the best rates in the market with transparent pricing and no hidden charges.''\<rparr>]"

text \<open>\<^verbatim>\<open>Testimonials.tsx\<close>\<close>

definition TESTIMONIALS :: "Testimonial list" where
  "TESTIMONIALS =
    [\<lparr>Testimonial.id' = ''testimonial-1'',
      Testimonial.quote =
        ''Porter has completely transformed how we manage our logistics. The real-time tracking is a game changer for our business.'',
      Testimonial.name = ''Rajesh Kumar'',
      Testimonial.role = ''Business Owner'',
      Testimonial.avatar = ''RK''\<rparr>,
     \<lparr>Testimonial.id' = ''testimonial-2'',
      Testimonial.quote =
        ''Excellent service! The driver was polite and helpful. I moved my entire house with Porter and it was hassle-free.'',
      Testimonial.name = ''Priya Singh'',
      Testimonial.role = ''Home Maker'',
      Testimonial.avatar = ''PS''\<rparr>,
     \<lparr>Testimonial.id' = ''testimonial-3'',
      Testimonial.quote =
        ''Affordable and reliable. I use Porter for all my ad-hoc delivery needs. Highly recommended.'',
      Testimonial.name = ''Amit Patel'',
      Testimonial.role = ''Freelancer'',
      Testimonial.avatar = ''AP''\<rparr>]"

text \<open>\<^verbatim>\<open>Footer.tsx\<close>\<close>

definition FOOTER_COLUMNS :: "FooterColumn list" where
  "FOOTER_COLUMNS =
    [\<lparr>FooterColumn.title = ''Company'',
      FooterColumn.links =
        [\<lparr>FooterLink.label = ''About Us'', FooterLink.href = ''/about''\<rparr>,
         \<lparr>FooterLink.label = ''Offers'', FooterLink.href = ''/offers''\<rparr>,
         \<lparr>FooterLink.label = ''Careers'', FooterLink.href = ''/careers''\<rparr>,
         \<lparr>FooterLink.label = ''Blog'', FooterLink.href = ''/blog''\<rparr>]\<rparr>,
     \<lparr>FooterColumn.title = ''Services'',
      FooterColumn.links =
        [\<lparr>FooterLink.label = ''City Tempo'', FooterLink.href = ''/services/city-tempo''\<rparr>,
         \<lparr>FooterLink.label = ''Packers & Movers'', FooterLink.href = ''/services/packers-movers''\<rparr>,
         \<lparr>FooterLink.label = ''Driver Partners'', FooterLink.href = ''/partners''\<rparr>,
         \<lparr>FooterLink.label = ''Enterprise'', FooterLink.href = ''/enterprise''\<rparr>]\<rparr>,
     \<lparr>FooterColumn.title = ''Support'',
      FooterColumn.links =
        [\<lparr>FooterLink.label = ''Help Center'', FooterLink.href = ''/help''\<rparr>,
         \<lparr>FooterLink.label = ''Contact Us'', FooterLink.href = ''/contact''\<rparr>,
         \<lparr>FooterLink.label = ''Privacy Policy'', FooterLink.href = ''/privacy''\<rparr>,
         \<lparr>FooterLink.label = ''Terms of Service'', FooterLink.href = ''/terms''\<rparr>]\<rparr>,
     \<lparr>FooterColumn.title = ''Download App'',
      FooterColumn.links =
        [\<lparr>FooterLink.label = ''Android'', FooterLink.href = ''https://play.google.com/store''\<rparr>,
         \<lparr>FooterLink.label = ''iOS'', FooterLink.href = ''https://apps.apple.com''\<rparr>]\<rparr>]"

definition SOCIAL_LINKS :: "SocialLink list" where
  "SOCIAL_LINKS =
    [\<lparr>SocialLink.icon = ''F'', SocialLink.label = ''Facebook'', SocialLink.href = ''#''\<rparr>,
     \<lparr>SocialLink.icon = ''T'', SocialLink.label = ''Twitter'', SocialLink.href = ''#''\<rparr>,
     \<lparr>SocialLink.icon = ''I'', SocialLink.label = ''Instagram'', SocialLink.href = ''#''\<rparr>,
     \<lparr>SocialLink.icon = ''L'', SocialLink.label = ''LinkedIn'', SocialLink.href = ''#''\<rparr>]"

section \<open>Markup\<close>

text \<open>
  The value a component returns is a tree of elements. An element has a tag, its
  attributes in the order the JSX writes them (the \<^verbatim>\<open>key\<close> among them), and its
  children. A child is a text, a number (a \<^verbatim>\<open>{expr}\<close> of type number) or an
  element; the array a \<^verbatim>\<open>{list.map(...)}\<close> yields stands among the children of its
  parent in place, one child for each of its entries.

  The style sheets (\<^verbatim>\<open>*.module.css\<close>) are not part of the sources, so the class
  name \<^verbatim>\<open>styles.k\<close> of the module \<^verbatim>\<open>M.module.css\<close> stays the symbol \<open>Styles M k\<close>;
  a class name written out in the JSX is \<open>Global\<close>. A \<^verbatim>\<open>className\<close> is the list
  of the pieces it concatenates. \<^verbatim>\<open>Link\<close> is the component of \<^verbatim>\<open>next/link\<close>, kept
  as an element with that tag and the attributes the JSX passes to it.
\<close>

datatype handler = handleGetEstimate

datatype cls = Global string | Styles string string

datatype attr_value = Str string | Class "cls list" | Handler handler

datatype node =
    Text string
  | Number int
  | Elem string "(string \<times> attr_value) list" "node list"

primrec tag :: "node \<Rightarrow> string" where
  "tag (Text s) = []"
| "tag (Number n) = []"
| "tag (Elem t as cs) = t"

primrec attrs :: "node \<Rightarrow> (string \<times> attr_value) list" where
  "attrs (Text s) = []"
| "attrs (Number n) = []"
| "attrs (Elem t as cs) = as"

primrec children :: "node \<Rightarrow> node list" where
  "children (Text s) = []"
| "children (Number n) = []"
| "children (Elem t as cs) = cs"

definition attr :: "string \<Rightarrow> node \<Rightarrow> attr_value option" where
  "attr a n = map_of (attrs n) a"

text \<open>All nodes of a tree, the root first, in document order.\<close>

primrec descendants :: "node \<Rightarrow> node list" where
  "descendants (Text s) = [Text s]"
| "descendants (Number n) = [Number n]"
| "descendants (Elem t as cs) = Elem t as cs # concat (map descendants cs)"

text \<open>The elements of a tree that carry a given class, in document order.\<close>

definition has_class :: "cls \<Rightarrow> node \<Rightarrow> bool" where
  "has_class c n = (case attr ''className'' n of Some (Class cs) \<Rightarrow> c \<in> set cs | _ \<Rightarrow> False)"

definition by_class :: "cls \<Rightarrow> node \<Rightarrow> node list" where
  "by_class c n = filter (has_class c) (descendants n)"

definition by_tag :: "string \<Rightarrow> node \<Rightarrow> node list" where
  "by_tag t n = filter (\<lambda>e. tag e = t) (descendants n)"

text \<open>The elements of a tree that an iteration produced: those with a key.\<close>

definition keyed :: "node \<Rightarrow> node list" where
  "keyed n = filter (\<lambda>e. attr ''key'' e \<noteq> None) (descendants n)"

section \<open>The components\<close>

text \<open>\<^verbatim>\<open>Header.tsx\<close>\<close>

definition Header :: node where
  "Header =
    Elem ''header'' [(''className'', Class [Styles ''Header'' ''header''])]
     [Elem ''div''
        [(''className'', Class [Global ''container '', Styles ''Header'' ''headerContainer''])]
       [Elem ''Link''
          [(''href'', Str ''/''),
           (''className'', Class [Styles ''Header'' ''logo'']),
           (''aria-label'', Str ''Porter Home'')]
         [Text ''PORTER''],
        Elem ''nav''
          [(''className'', Class [Styles ''Header'' ''nav'']),
           (''aria-label'', Str ''Main navigation'')]
         (map (\<lambda>link.
            Elem ''Link''
              [(''key'', Str (NavLink.href link)),
               (''href'', Str (NavLink.href link)),
               (''className'', Class [Styles ''Header'' ''navLink''])]
             [Text (NavLink.label link)]) NAV_LINKS),
        Elem ''div'' [(''className'', Class [Styles ''Header'' ''actions''])]
         [Elem ''button''
            [(''className'', Class [Styles ''Header'' ''secondaryBtn'']),
             (''aria-label'', Str ''Track your order'')]
           [Text ''Track Order''],
          Elem ''button''
            [(''className'', Class [Styles ''Header'' ''primaryBtn'']),
             (''aria-label'', Str ''Login to account'')]
           [Text ''Login'']]]]"

text \<open>\<^verbatim>\<open>Hero.tsx\<close>\<close>

definition Hero :: node where
  "Hero =
    Elem ''section'' [(''className'', Class [Styles ''Hero'' ''heroSection''])]
     [Elem ''div'' [(''className'', Class [Global ''container''])]
       [Elem ''div'' [(''className'', Class [Styles ''Hero'' ''heroContent''])]
         [Elem ''h2'' [(''className'', Class [Styles ''Hero'' ''heroTitle''])]
           [Text ''Delivery hai?''],
          Elem ''h1'' [(''className'', Class [Styles ''Hero'' ''heroHashtag''])]
           [Text ''#HoJayega!'']]],
      Elem ''div'' [(''className'', Class [Styles ''Hero'' ''floatingWidgetContainer''])]
       [Elem ''div'' [(''className'', Class [Styles ''Hero'' ''floatingWidget''])]
         [Elem ''div''
            [(''className'', Class [Styles ''Hero'' ''citySelector'']),
             (''role'', Str ''region''),
             (''aria-label'', Str ''Location selector'')]
           [Elem ''span''
              [(''className'', Class [Styles ''Hero'' ''cityIcon'']),
               (''aria-hidden'', Str ''true'')]
             [Text [CHR 0xF0, CHR 0x9F, CHR 0x93, CHR 0x8D]],
            Elem ''span'' []
             [Text ''City: '', Elem ''strong'' [] [Text DEFAULT_CITY]],
            Elem ''span'' [(''aria-hidden'', Str ''true'')]
             [Text [CHR 0xE2, CHR 0x96, CHR 0xBC]]],
          Elem ''div''
            [(''className'', Class [Styles ''Hero'' ''servicesGrid'']),
             (''role'', Str ''region''),
             (''aria-label'', Str ''Service options'')]
           (map (\<lambda>service.
              Elem ''div''
                [(''key'', Str (ServiceOption.label service)),
                 (''className'', Class [Styles ''Hero'' ''serviceOption''])]
               [Elem ''span''
                  [(''className'', Class [Styles ''Hero'' ''serviceIcon'']),
                   (''aria-hidden'', Str ''true'')]
                 [Text (ServiceOption.icon service)],
                Elem ''span'' [(''className'', Class [Styles ''Hero'' ''serviceLabel''])]
                 [Text (ServiceOption.label service)]]) SERVICE_OPTIONS
            @
            [Elem ''button''
               [(''className'', Class [Styles ''Hero'' ''estimateBtn'']),
                (''onClick'', Handler handleGetEstimate),
                (''aria-label'', Str ''Get estimate for delivery'')]
              [Elem ''span'' [(''className'', Class [Styles ''Hero'' ''btnText''])]
                [Text (''Get an Estimate '' @ [CHR 0xE2, CHR 0x86, CHR 0x92])],
               Elem ''span'' [(''className'', Class [Styles ''Hero'' ''btnSubtext''])]
                [Text ''(takes ~2 mins)'']]])]]]"

text \<open>\<^verbatim>\<open>Services.tsx\<close>\<close>

definition Services :: node where
  "Services =
    Elem ''section'' [(''className'', Class [Styles ''Services'' ''section''])]
     [Elem ''div'' [(''className'', Class [Global ''container''])]
       [Elem ''h2'' [(''className'', Class [Styles ''Services'' ''title''])]
         [Text ''Services We Offer''],
        Elem ''div'' [(''className'', Class [Styles ''Services'' ''grid''])]
         (map (\<lambda>service.
            Elem ''div''
              [(''key'', Str (Service.id' service)),
               (''className'', Class [Styles ''Services'' ''card''])]
             [Elem ''div''
                [(''className'', Class [Styles ''Services'' ''iconPlaceholder'']),
                 (''aria-hidden'', Str ''true'')]
               [Text (Service.icon service)],
              Elem ''h3'' [(''className'', Class [Styles ''Services'' ''cardTitle''])]
               [Text (Service.title service)],
              Elem ''p'' [(''className'', Class [Styles ''Services'' ''cardDesc''])]
               [Text (Service.description service)]]) SERVICES)]]"

text \<open>\<^verbatim>\<open>Features.tsx\<close>\<close>

definition Features :: node where
  "Features =
    Elem ''section'' [(''className'', Class [Styles ''Features'' ''section''])]
     [Elem ''div'' [(''className'', Class [Global ''container''])]
       [Elem ''h2'' [(''className'', Class [Styles ''Features'' ''title''])]
         [Text ''Why Choose Porter?''],
        Elem ''div'' [(''className'', Class [Styles ''Features'' ''grid''])]
         (map (\<lambda>feature.
            Elem ''div''
              [(''key'', Str (Feature.id' feature)),
               (''className'', Class [Styles ''Features'' ''feature''])]
             [Elem ''div''
                [(''className'', Class [Styles ''Features'' ''icon'']),
                 (''aria-hidden'', Str ''true'')]
               [Text (Feature.icon feature)],
              Elem ''h3'' [(''className'', Class [Styles ''Features'' ''featureTitle''])]
               [Text (Feature.title feature)],
              Elem ''p'' [(''className'', Class [Styles ''Features'' ''featureText''])]
               [Text (Feature.description feature)]]) FEATURES)]]"

text \<open>\<^verbatim>\<open>Testimonials.tsx\<close>; \<^verbatim>\<open>&quot;\<close> is the character 0x22.\<close>

definition Testimonials :: node where
  "Testimonials =
    Elem ''section'' [(''className'', Class [Styles ''Testimonials'' ''section''])]
     [Elem ''div'' [(''className'', Class [Global ''container''])]
       [Elem ''h2'' [(''className'', Class [Styles ''Testimonials'' ''title''])]
         [Text ''What our customers say''],
        Elem ''div'' [(''className'', Class [Styles ''Testimonials'' ''grid''])]
         (map (\<lambda>testimonial.
            Elem ''div''
              [(''key'', Str (Testimonial.id' testimonial)),
               (''className'', Class [Styles ''Testimonials'' ''card''])]
             [Elem ''p'' [(''className'', Class [Styles ''Testimonials'' ''quote''])]
               [Text [CHR 0x22], Text (Testimonial.quote testimonial), Text [CHR 0x22]],
              Elem ''div'' [(''className'', Class [Styles ''Testimonials'' ''author''])]
               [Elem ''div''
                  [(''className'', Class [Styles ''Testimonials'' ''avatar'']),
                   (''title'',
                      Str (Testimonial.name testimonial @ '' - '' @ Testimonial.role testimonial)),
                   (''aria-label'', Str (Testimonial.name testimonial))]
                 [Text (Testimonial.avatar testimonial)],
                Elem ''div'' [(''className'', Class [Styles ''Testimonials'' ''authorInfo''])]
                 [Elem ''span'' [(''className'', Class [Styles ''Testimonials'' ''name''])]
                   [Text (Testimonial.name testimonial)],
                  Elem ''span'' [(''className'', Class [Styles ''Testimonials'' ''role''])]
                   [Text (Testimonial.role testimonial)]]]]) TESTIMONIALS)]]"

text \<open>
  \<^verbatim>\<open>Footer.tsx\<close>. The module constant \<^verbatim>\<open>CURRENT_YEAR = new Date().getFullYear()\<close>
  is computed when the module is loaded, from the system clock: the component reads
  it, and the model takes it as the argument \<open>CURRENT_YEAR\<close>.
\<close>

definition Footer :: "int \<Rightarrow> node" where
  "Footer CURRENT_YEAR =
    Elem ''footer'' [(''className'', Class [Styles ''Footer'' ''footer''])]
     [Elem ''div'' [(''className'', Class [Global ''container''])]
       [Elem ''div'' [(''className'', Class [Styles ''Footer'' ''grid''])]
         (map (\<lambda>column.
            Elem ''div'' [(''key'', Str (FooterColumn.title column))]
             [Elem ''h4'' [(''className'', Class [Styles ''Footer'' ''columnTitle''])]
               [Text (FooterColumn.title column)],
              Elem ''nav''
                [(''className'', Class [Styles ''Footer'' ''linkList'']),
                 (''aria-label'', Str (FooterColumn.title column @ '' links''))]
               (map (\<lambda>link.
                  Elem ''a''
                    [(''key'', Str (FooterLink.href link)),
                     (''href'', Str (FooterLink.href link)),
                     (''className'', Class [Styles ''Footer'' ''link''])]
                   [Text (FooterLink.label link)]) (FooterColumn.links column))]) FOOTER_COLUMNS),
        Elem ''div'' [(''className'', Class [Styles ''Footer'' ''bottom''])]
         [Elem ''p'' []
           [Text ([CHR 0xC2, CHR 0xA9] @ '' ''),
            Number CURRENT_YEAR,
            Text '' Porter. All rights reserved.''],
          Elem ''div''
            [(''className'', Class [Styles ''Footer'' ''socials'']),
             (''aria-label'', Str ''Social media links'')]
           (map (\<lambda>social.
              Elem ''a''
                [(''key'', Str (SocialLink.label social)),
                 (''href'', Str (SocialLink.href social)),
                 (''className'', Class [Styles ''Footer'' ''socialIcon'']),
                 (''aria-label'', Str (SocialLink.label social))]
               [Text (SocialLink.icon social)]) SOCIAL_LINKS)]]]"

text \<open>\<^verbatim>\<open>app/page.tsx\<close>\<close>

definition Home :: "int \<Rightarrow> node" where
  "Home CURRENT_YEAR =
    Elem ''main'' []
     [Header, Hero, Services, Features, Testimonials, Footer CURRENT_YEAR]"

section \<open>Selectors on the rendered tree\<close>

text \<open>The texts of a tree, in document order.\<close>

definition texts :: "node \<Rightarrow> string list" where
  "texts n = concat (map (\<lambda>d. case d of Text s \<Rightarrow> [s] | _ \<Rightarrow> []) (descendants n))"

text \<open>The value of a string attribute of each node of a list.\<close>

definition strs :: "string \<Rightarrow> node list \<Rightarrow> string option list" where
  "strs a ns = map (\<lambda>n. case attr a n of Some (Str s) \<Rightarrow> Some s | _ \<Rightarrow> None) ns"

text \<open>The handlers an element carries, each with the attribute that binds it.\<close>

definition handlers :: "node \<Rightarrow> (string \<times> handler) list" where
  "handlers n =
    concat (map (\<lambda>(a, v). case v of Handler h \<Rightarrow> [(a, h)] | _ \<Rightarrow> []) (attrs n))"

text \<open>The elements a user can activate: links (\<^verbatim>\<open>Link\<close>, \<^verbatim>\<open>a\<close>) and buttons.\<close>

definition interactive :: "node \<Rightarrow> bool" where
  "interactive n = (tag n \<in> set [''Link'', ''a'', ''button''])"

text \<open>The elements of a tree that carry a handler, in document order.\<close>

definition bound :: "node \<Rightarrow> node list" where
  "bound n = filter (\<lambda>e. handlers e \<noteq> []) (descendants n)"

text \<open>The interactive elements of a tree that have no \<^verbatim>\<open>aria-label\<close>.\<close>

definition unlabelled :: "node \<Rightarrow> node list" where
  "unlabelled n =
    filter (\<lambda>e. interactive e \<and> attr ''aria-label'' e = None) (descendants n)"

text \<open>
  In a list of siblings, the keys of those that have one are pairwise distinct, and
  so on below each of them.
\<close>

primrec keys_distinct :: "node \<Rightarrow> bool" where
  "keys_distinct (Text s) = True"
| "keys_distinct (Number n) = True"
| "keys_distinct (Elem t as cs) =
    (distinct (concat (map (\<lambda>c. case attr ''key'' c of Some k \<Rightarrow> [k] | None \<Rightarrow> []) cs))
     \<and> list_all keys_distinct cs)"

section \<open>A run of the program\<close>

text \<open>
  What the code can read or change while the page is up: the year the system clock
  reports (\<^verbatim>\<open>new Date().getFullYear()\<close>), the module constant \<^verbatim>\<open>CURRENT_YEAR\<close> of
  \<^verbatim>\<open>Footer.tsx\<close> and the one of \<^verbatim>\<open>constants/index.ts\<close> (which no component
  reads), the lines written to the console, and the address the browser shows.
\<close>

record process =
  clock :: int
  Footer_CURRENT_YEAR :: int
  constants_CURRENT_YEAR :: int
  console :: "string list"
  location :: string

text \<open>
  Loading the modules evaluates their top-level constants once, at the year the
  clock reports then; the page is at the address \<open>at\<close>.
\<close>

definition load :: "int \<Rightarrow> string \<Rightarrow> process" where
  "load now at =
    \<lparr>clock = now, Footer_CURRENT_YEAR = now, constants_CURRENT_YEAR = now,
     console = [], location = at\<rparr>"

text \<open>Rendering the page returns the tree and the process as it is left.\<close>

definition render :: "process \<Rightarrow> node \<times> process" where
  "render s = (Home (Footer_CURRENT_YEAR s), s)"

text \<open>\<^verbatim>\<open>handleGetEstimate\<close> of \<^verbatim>\<open>Hero.tsx\<close>: \<^verbatim>\<open>console.log('Get estimate clicked')\<close>.\<close>

primrec run_handler :: "handler \<Rightarrow> process \<Rightarrow> process" where
  "run_handler handleGetEstimate s = s\<lparr>console := console s @ [''Get estimate clicked'']\<rparr>"

text \<open>
  The events of a run: the page is rendered, an element bound to a handler is
  clicked, the clock moves on to another year.
\<close>

datatype event = Render | Clicked handler | Tick int

primrec run :: "event list \<Rightarrow> process \<Rightarrow> node list \<times> process" where
  "run [] s = ([], s)"
| "run (e # es) s =
    (case e of
       Render \<Rightarrow>
         (case render s of (out, s') \<Rightarrow>
           (case run es s' of (outs, s'') \<Rightarrow> (out # outs, s'')))
     | Clicked h \<Rightarrow> run es (run_handler h s)
     | Tick y \<Rightarrow> run es (s\<lparr>clock := y\<rparr>))"

text \<open>The interactive elements of a tree that have an \<^verbatim>\<open>aria-label\<close>.\<close>

definition labelled :: "node \<Rightarrow> node list" where
  "labelled n =
    filter (\<lambda>e. interactive e \<and> attr ''aria-label'' e \<noteq> None) (descendants n)"

text \<open>The elements of a tree marked \<^verbatim>\<open>aria-hidden="true"\<close>.\<close>

definition hidden :: "node \<Rightarrow> node list" where
  "hidden n = filter (\<lambda>e. attr ''aria-hidden'' e = Some (Str ''true'')) (descendants n)"

text \<open>
  The decorative elements, as the repository's standards show them
  (\<^verbatim>\<open><span aria-hidden="true">\<close> around an emoji): the elements whose whole content
  is a pictograph, that is, texts made of characters outside ASCII only (in UTF-8,
  bytes with the top bit set).
\<close>

definition pictograph :: "node \<Rightarrow> bool" where
  "pictograph n =
    (children n \<noteq> [] \<and>
     list_all (\<lambda>c. case c of Text s \<Rightarrow> s \<noteq> [] \<and> list_all digit7 s | _ \<Rightarrow> False) (children n))"

definition pictographs :: "node \<Rightarrow> node list" where
  "pictographs n = filter pictograph (descendants n)"

section \<open>The imports of the source files\<close>

text \<open>
  The source files of the application, and the module specifiers of the
  \<^verbatim>\<open>import\<close> declarations of each, in the order they are written
  (\<^verbatim>\<open>import type\<close> included).
\<close>

datatype source_file =
    app_page | app_layout
  | Header_tsx | Footer_tsx | Hero_tsx | Services_tsx | Features_tsx | Testimonials_tsx
  | constants_index | types_index

primrec imports_of :: "source_file \<Rightarrow> string list" where
  "imports_of app_page =
    [''@/components/layout/Header'', ''@/components/layout/Footer'',
     ''@/components/home/Hero'', ''@/components/home/Services'',
     ''@/components/home/Features'', ''@/components/home/Testimonials'']"
| "imports_of app_layout = [''next'', ''next/font/google'', ''./globals.css'']"
| "imports_of Header_tsx = [''next/link'', ''./Header.module.css'']"
| "imports_of Footer_tsx = [''./Footer.module.css'']"
| "imports_of Hero_tsx = [''./Hero.module.css'']"
| "imports_of Services_tsx = [''./Services.module.css'']"
| "imports_of Features_tsx = [''./Features.module.css'']"
| "imports_of Testimonials_tsx = [''./Testimonials.module.css'']"
| "imports_of constants_index = [''@/types'']"
| "imports_of types_index = []"

text \<open>
  The source file a specifier names: \<^verbatim>\<open>@/\<close> stands for \<^verbatim>\<open>src/\<close>, and a directory
  for its \<^verbatim>\<open>index.ts\<close>. Packages and style sheets are no source files.
\<close>

definition resolve :: "string \<Rightarrow> source_file option" where
  "resolve spec =
    map_of
      [(''@/components/layout/Header'', Header_tsx),
       (''@/components/layout/Footer'', Footer_tsx),
       (''@/components/home/Hero'', Hero_tsx),
       (''@/components/home/Services'', Services_tsx),
       (''@/components/home/Features'', Features_tsx),
       (''@/components/home/Testimonials'', Testimonials_tsx),
       (''@/constants'', constants_index),
       (''@/constants/index'', constants_index),
       (''@/types'', types_index),
       (''@/types/index'', types_index)] spec"

definition deps :: "source_file \<Rightarrow> source_file list" where
  "deps f = List.map_filter resolve (imports_of f)"

text \<open>The source files loaded with a file: those it reaches through at most \<open>n\<close> imports.\<close>

primrec reach :: "nat \<Rightarrow> source_file \<Rightarrow> source_file list" where
  "reach 0 f = [f]"
| "reach (Suc n) f = f # concat (map (reach n) (deps f))"

section \<open>Selecting in an element\<close>

text \<open>
  Each selector works through an element from its root: the element itself if it
  matches, then what the selector finds in each child, in order.
\<close>

lemma concat_map_Nil_const: "concat (map (\<lambda>x. []) xs) = []"
  by (induction xs) simp_all

lemma by_tag_Elem:
  "by_tag t (Elem t' as cs) = (if t' = t then [Elem t' as cs] else []) @ concat (map (by_tag t) cs)"
  by (simp add: by_tag_def [abs_def] filter_concat comp_def)

lemma by_tag_leaf: "by_tag (c # t) (Text s) = []" "by_tag (c # t) (Number k) = []"
  by (simp_all add: by_tag_def)

lemma has_class_Elem:
  "has_class c (Elem t as cs) =
    (case map_of as ''className'' of Some (Class cl) \<Rightarrow> c \<in> set cl | _ \<Rightarrow> False)"
  by (simp add: has_class_def attr_def)

lemma by_class_Elem:
  "by_class c (Elem t as cs) =
    (if has_class c (Elem t as cs) then [Elem t as cs] else []) @ concat (map (by_class c) cs)"
  by (simp add: by_class_def [abs_def] filter_concat comp_def)

lemma by_class_leaf: "by_class c (Text s) = []" "by_class c (Number k) = []"
  by (simp_all add: by_class_def has_class_def attr_def)

lemma keyed_Elem:
  "keyed (Elem t as cs) =
    (if map_of as ''key'' \<noteq> None then [Elem t as cs] else []) @ concat (map keyed cs)"
  by (simp add: keyed_def [abs_def] attr_def filter_concat comp_def)

lemma keyed_leaf: "keyed (Text s) = []" "keyed (Number k) = []"
  by (simp_all add: keyed_def attr_def)

lemma texts_Elem: "texts (Elem t as cs) = concat (map texts cs)"
  by (induction cs) (simp_all add: texts_def)

lemma texts_leaf: "texts (Text s) = [s]" "texts (Number k) = []"
  by (simp_all add: texts_def)

lemma bound_Elem:
  "bound (Elem t as cs) =
    (if handlers (Elem t as cs) \<noteq> [] then [Elem t as cs] else []) @ concat (map bound cs)"
  by (simp add: bound_def [abs_def] filter_concat comp_def)

lemma bound_leaf: "bound (Text s) = []" "bound (Number k) = []"
  by (simp_all add: bound_def handlers_def)

lemma unlabelled_Elem:
  "unlabelled (Elem t as cs) =
    (if t \<in> set [''Link'', ''a'', ''button''] \<and> map_of as ''aria-label'' = None
     then [Elem t as cs] else []) @ concat (map unlabelled cs)"
  by (simp add: unlabelled_def [abs_def] interactive_def attr_def filter_concat comp_def)

lemma unlabelled_leaf: "unlabelled (Text s) = []" "unlabelled (Number k) = []"
  by (simp_all add: unlabelled_def interactive_def)

lemma strs_Nil: "strs a [] = []"
  by (simp add: strs_def)

lemma strs_Cons:
  "strs a (Elem t as cs # ns) =
    (case map_of as a of Some (Str s) \<Rightarrow> Some s | _ \<Rightarrow> None) # strs a ns"
  by (simp add: strs_def attr_def)

lemma strs_append: "strs a (ms @ ns) = strs a ms @ strs a ns"
  by (simp add: strs_def)

lemma strs_concat: "strs a (concat nss) = concat (map (strs a) nss)"
  by (simp add: strs_def [abs_def] map_concat)

lemma strs_map_Elem:
  "strs a (map (\<lambda>x. Elem (t x) (as x) (cs x)) xs) =
    map (\<lambda>x. case map_of (as x) a of Some (Str s) \<Rightarrow> Some s | _ \<Rightarrow> None) xs"
  by (simp add: strs_def attr_def comp_def)

lemma labelled_Elem:
  "labelled (Elem t as cs) =
    (if t \<in> set [''Link'', ''a'', ''button''] \<and> map_of as ''aria-label'' \<noteq> None
     then [Elem t as cs] else []) @ concat (map labelled cs)"
  by (simp add: labelled_def [abs_def] interactive_def attr_def filter_concat comp_def)

lemma labelled_leaf: "labelled (Text s) = []" "labelled (Number k) = []"
  by (simp_all add: labelled_def interactive_def)

lemma hidden_Elem:
  "hidden (Elem t as cs) =
    (if map_of as ''aria-hidden'' = Some (Str ''true'') then [Elem t as cs] else [])
    @ concat (map hidden cs)"
  by (simp add: hidden_def [abs_def] attr_def filter_concat comp_def)

lemma hidden_leaf: "hidden (Text s) = []" "hidden (Number k) = []"
  by (simp_all add: hidden_def attr_def)

lemma pictograph_Elem:
  "pictograph (Elem t as cs) =
    (cs \<noteq> [] \<and>
     list_all (\<lambda>c. case c of Text s \<Rightarrow> s \<noteq> [] \<and> list_all digit7 s | _ \<Rightarrow> False) cs)"
  by (simp add: pictograph_def)

lemma pictographs_Elem:
  "pictographs (Elem t as cs) =
    (if pictograph (Elem t as cs) then [Elem t as cs] else []) @ concat (map pictographs cs)"
  by (simp add: pictographs_def [abs_def] filter_concat comp_def)

lemma pictographs_leaf: "pictographs (Text s) = []" "pictographs (Number k) = []"
  by (simp_all add: pictographs_def pictograph_def)

lemmas select_simps =
  by_tag_Elem by_tag_leaf has_class_Elem by_class_Elem by_class_leaf
  keyed_Elem keyed_leaf texts_Elem texts_leaf bound_Elem bound_leaf
  unlabelled_Elem unlabelled_leaf labelled_Elem labelled_leaf hidden_Elem hidden_leaf
  pictograph_Elem pictographs_Elem pictographs_leaf
  strs_Nil strs_Cons strs_append strs_concat strs_map_Elem
  concat_map_Nil_const map_concat comp_def

section \<open>The page composition\<close>

lemma no_main_in_sections:
  "by_tag ''main'' Header = []"
  "by_tag ''main'' Hero = []"
  "by_tag ''main'' Services = []"
  "by_tag ''main'' Features = []"
  "by_tag ''main'' Testimonials = []"
  "by_tag ''main'' (Footer y) = []"
  by (simp_all add: Header_def Hero_def Services_def Features_def Testimonials_def Footer_def
        select_simps)

lemma section_tags:
  "map tag [Header, Hero, Services, Features, Testimonials, Footer y] =
    [''header'', ''section'', ''section'', ''section'', ''section'', ''footer'']"
  by (simp add: Header_def Hero_def Services_def Features_def Testimonials_def Footer_def)

lemma section_classes:
  "map (attr ''className'') [Header, Hero, Services, Features, Testimonials, Footer y] =
    [Some (Class [Styles ''Header'' ''header'']), Some (Class [Styles ''Hero'' ''heroSection'']),
     Some (Class [Styles ''Services'' ''section'']), Some (Class [Styles ''Features'' ''section'']),
     Some (Class [Styles ''Testimonials'' ''section'']), Some (Class [Styles ''Footer'' ''footer''])]"
  by (simp add: Header_def Hero_def Services_def Features_def Testimonials_def Footer_def attr_def)

text \<open>
  C1. \<^verbatim>\<open>Home\<close> renders one \<^verbatim>\<open>main\<close> element, the only one of the page, whose
  children are exactly the six sections Header, Hero, Services, Features,
  Testimonials, Footer, in that order: a \<^verbatim>\<open>header\<close>, four \<^verbatim>\<open>section\<close>s and a
  \<^verbatim>\<open>footer\<close>, each with the root class of its own module. This holds for the tree of
  every render, whatever the state of the process.
\<close>

theorem C1_Home_six_sections_in_order:
  "by_tag ''main'' (Home y) = [Home y]
   \<and> children (Home y) = [Header, Hero, Services, Features, Testimonials, Footer y]
   \<and> length (children (Home y)) = 6
   \<and> map tag (children (Home y)) =
       [''header'', ''section'', ''section'', ''section'', ''section'', ''footer'']
   \<and> map (attr ''className'') (children (Home y)) =
       [Some (Class [Styles ''Header'' ''header'']), Some (Class [Styles ''Hero'' ''heroSection'']),
        Some (Class [Styles ''Services'' ''section'']), Some (Class [Styles ''Features'' ''section'']),
        Some (Class [Styles ''Testimonials'' ''section'']), Some (Class [Styles ''Footer'' ''footer''])]
   \<and> children (fst (render s)) =
       [Header, Hero, Services, Features, Testimonials, Footer (Footer_CURRENT_YEAR s)]"
proof -
  have "by_tag ''main'' (Home y) = [Home y]"
    by (simp add: Home_def by_tag_Elem no_main_in_sections)
  moreover have "children (Home y) = [Header, Hero, Services, Features, Testimonials, Footer y]"
    by (simp add: Home_def)
  moreover have "children (fst (render s)) =
      [Header, Hero, Services, Features, Testimonials, Footer (Footer_CURRENT_YEAR s)]"
    by (simp add: render_def Home_def)
  ultimately show ?thesis
    using section_tags [of y] section_classes [of y] by simp
qed

section \<open>One node for each entry of a list\<close>

lemma keyed_Header:
  "strs ''key'' (keyed Header) = map (\<lambda>l. Some (NavLink.href l)) NAV_LINKS"
  "map texts (keyed Header) = map (\<lambda>l. [NavLink.label l]) NAV_LINKS"
  by (simp_all add: Header_def select_simps)

lemma keyed_Hero:
  "strs ''key'' (keyed Hero) = map (\<lambda>opt. Some (ServiceOption.label opt)) SERVICE_OPTIONS"
  "map texts (keyed Hero) =
    map (\<lambda>opt. [ServiceOption.icon opt, ServiceOption.label opt]) SERVICE_OPTIONS"
  by (simp_all add: Hero_def select_simps)

lemma keyed_Services:
  "strs ''key'' (keyed Services) = map (\<lambda>v. Some (Service.id' v)) SERVICES"
  "map texts (keyed Services) =
    map (\<lambda>v. [Service.icon v, Service.title v, Service.description v]) SERVICES"
  by (simp_all add: Services_def select_simps)

lemma keyed_Features:
  "strs ''key'' (keyed Features) = map (\<lambda>f. Some (Feature.id' f)) FEATURES"
  "map texts (keyed Features) =
    map (\<lambda>f. [Feature.icon f, Feature.title f, Feature.description f]) FEATURES"
  by (simp_all add: Features_def select_simps)

lemma keyed_Testimonials:
  "strs ''key'' (keyed Testimonials) = map (\<lambda>t. Some (Testimonial.id' t)) TESTIMONIALS"
  "map texts (keyed Testimonials) =
    map (\<lambda>t. [[CHR 0x22], Testimonial.quote t, [CHR 0x22],
              Testimonial.avatar t, Testimonial.name t, Testimonial.role t]) TESTIMONIALS"
  by (simp_all add: Testimonials_def select_simps)

lemma keyed_Footer:
  "strs ''key'' (keyed (Footer y)) =
    concat (map (\<lambda>c. Some (FooterColumn.title c)
                      # map (\<lambda>l. Some (FooterLink.href l)) (FooterColumn.links c)) FOOTER_COLUMNS)
    @ map (\<lambda>l. Some (SocialLink.label l)) SOCIAL_LINKS"
  "map texts (keyed (Footer y)) =
    concat (map (\<lambda>c. (FooterColumn.title c # map FooterLink.label (FooterColumn.links c))
                      # map (\<lambda>l. [FooterLink.label l]) (FooterColumn.links c)) FOOTER_COLUMNS)
    @ map (\<lambda>l. [SocialLink.icon l]) SOCIAL_LINKS"
  by (simp_all add: Footer_def select_simps)

lemma Footer_rows:
  "strs ''key'' (concat (map children (by_class (Styles ''Footer'' ''grid'') (Footer y)))) =
    map (\<lambda>c. Some (FooterColumn.title c)) FOOTER_COLUMNS"
  "map (\<lambda>n. strs ''key'' (children n)) (by_class (Styles ''Footer'' ''linkList'') (Footer y)) =
    map (\<lambda>c. map (\<lambda>l. Some (FooterLink.href l)) (FooterColumn.links c)) FOOTER_COLUMNS"
  "strs ''key'' (concat (map children (by_class (Styles ''Footer'' ''socials'') (Footer y)))) =
    map (\<lambda>l. Some (SocialLink.label l)) SOCIAL_LINKS"
  by (simp_all add: Footer_def select_simps)

text \<open>
  C2. For every list rendered by iteration, the nodes the iteration produced (the
  elements with a key, in document order) are one for each entry of the list, in
  the order of the list: their keys are the key fields of the entries and their
  texts are the fields of the entries. That is so for \<^verbatim>\<open>NAV_LINKS\<close> in Header,
  \<^verbatim>\<open>SERVICE_OPTIONS\<close> in Hero, \<^verbatim>\<open>SERVICES\<close> in Services, \<^verbatim>\<open>FEATURES\<close> in Features,
  \<^verbatim>\<open>TESTIMONIALS\<close> in Testimonials, and in Footer for \<^verbatim>\<open>FOOTER_COLUMNS\<close> (one node
  for each column under the grid, followed by one node for each of its links under
  its \<^verbatim>\<open>nav\<close>) and \<^verbatim>\<open>SOCIAL_LINKS\<close>.
\<close>

theorem C2_one_node_per_entry_in_order:
  "strs ''key'' (keyed Header) = map (\<lambda>l. Some (NavLink.href l)) NAV_LINKS
   \<and> map texts (keyed Header) = map (\<lambda>l. [NavLink.label l]) NAV_LINKS
   \<and> length (keyed Header) = length NAV_LINKS
   \<and> strs ''key'' (keyed Hero) = map (\<lambda>opt. Some (ServiceOption.label opt)) SERVICE_OPTIONS
   \<and> map texts (keyed Hero) =
       map (\<lambda>opt. [ServiceOption.icon opt, ServiceOption.label opt]) SERVICE_OPTIONS
   \<and> length (keyed Hero) = length SERVICE_OPTIONS
   \<and> strs ''key'' (keyed Services) = map (\<lambda>v. Some (Service.id' v)) SERVICES
   \<and> map texts (keyed Services) =
       map (\<lambda>v. [Service.icon v, Service.title v, Service.description v]) SERVICES
   \<and> length (keyed Services) = length SERVICES
   \<and> strs ''key'' (keyed Features) = map (\<lambda>f. Some (Feature.id' f)) FEATURES
   \<and> map texts (keyed Features) =
       map (\<lambda>f. [Feature.icon f, Feature.title f, Feature.description f]) FEATURES
   \<and> length (keyed Features) = length FEATURES
   \<and> strs ''key'' (keyed Testimonials) = map (\<lambda>t. Some (Testimonial.id' t)) TESTIMONIALS
   \<and> map texts (keyed Testimonials) =
       map (\<lambda>t. [[CHR 0x22], Testimonial.quote t, [CHR 0x22],
                 Testimonial.avatar t, Testimonial.name t, Testimonial.role t]) TESTIMONIALS
   \<and> length (keyed Testimonials) = length TESTIMONIALS
   \<and> strs ''key'' (keyed (Footer y)) =
       concat (map (\<lambda>c. Some (FooterColumn.title c)
                         # map (\<lambda>l. Some (FooterLink.href l)) (FooterColumn.links c)) FOOTER_COLUMNS)
       @ map (\<lambda>l. Some (SocialLink.label l)) SOCIAL_LINKS
   \<and> map texts (keyed (Footer y)) =
       concat (map (\<lambda>c. (FooterColumn.title c # map FooterLink.label (FooterColumn.links c))
                         # map (\<lambda>l. [FooterLink.label l]) (FooterColumn.links c)) FOOTER_COLUMNS)
       @ map (\<lambda>l. [SocialLink.icon l]) SOCIAL_LINKS
   \<and> strs ''key'' (concat (map children (by_class (Styles ''Footer'' ''grid'') (Footer y)))) =
       map (\<lambda>c. Some (FooterColumn.title c)) FOOTER_COLUMNS
   \<and> map (\<lambda>n. strs ''key'' (children n)) (by_class (Styles ''Footer'' ''linkList'') (Footer y)) =
       map (\<lambda>c. map (\<lambda>l. Some (FooterLink.href l)) (FooterColumn.links c)) FOOTER_COLUMNS
   \<and> strs ''key'' (concat (map children (by_class (Styles ''Footer'' ''socials'') (Footer y)))) =
       map (\<lambda>l. Some (SocialLink.label l)) SOCIAL_LINKS"
proof -
  have "length (keyed Header) = length NAV_LINKS"
    using arg_cong [OF keyed_Header(2), of length] by simp
  moreover have "length (keyed Hero) = length SERVICE_OPTIONS"
    using arg_cong [OF keyed_Hero(2), of length] by simp
  moreover have "length (keyed Services) = length SERVICES"
    using arg_cong [OF keyed_Services(2), of length] by simp
  moreover have "length (keyed Features) = length FEATURES"
    using arg_cong [OF keyed_Features(2), of length] by simp
  moreover have "length (keyed Testimonials) = length TESTIMONIALS"
    using arg_cong [OF keyed_Testimonials(2), of length] by simp
  ultimately show ?thesis
    by (simp only: keyed_Header keyed_Hero keyed_Services keyed_Features keyed_Testimonials
          keyed_Footer Footer_rows simp_thms)
qed

section \<open>The services\<close>

lemma Services_cards:
  "concat (map texts (by_class (Styles ''Services'' ''cardTitle'') Services)) =
    map Service.title SERVICES"
  "by_tag ''h3'' Services = by_class (Styles ''Services'' ''cardTitle'') Services"
  "strs ''key'' (by_class (Styles ''Services'' ''card'') Services) =
    map (\<lambda>v. Some (Service.id' v)) SERVICES"
  by (simp_all add: Services_def select_simps)

text \<open>
  C3. The titles Services renders, the texts of its \<^verbatim>\<open>h3\<close> elements (all of them
  card titles), are exactly \<^verbatim>\<open>2 Wheeler\<close>, \<^verbatim>\<open>Trucks\<close>, \<^verbatim>\<open>Packers & Movers\<close>,
  \<^verbatim>\<open>Enterprise\<close>, in that order, on the cards with the keys \<^verbatim>\<open>two-wheeler\<close>,
  \<^verbatim>\<open>trucks\<close>, \<^verbatim>\<open>packers-movers\<close>, \<^verbatim>\<open>enterprise\<close>.
\<close>

theorem C3_Services_four_titles:
  "concat (map texts (by_tag ''h3'' Services)) =
     [''2 Wheeler'', ''Trucks'', ''Packers & Movers'', ''Enterprise'']
   \<and> by_tag ''h3'' Services = by_class (Styles ''Services'' ''cardTitle'') Services
   \<and> strs ''key'' (by_class (Styles ''Services'' ''card'') Services) =
     [Some ''two-wheeler'', Some ''trucks'', Some ''packers-movers'', Some ''enterprise'']
   \<and> strs ''key'' (keyed Services) =
     [Some ''two-wheeler'', Some ''trucks'', Some ''packers-movers'', Some ''enterprise'']"
  unfolding Services_cards keyed_Services by (simp add: SERVICES_def)

section \<open>Keys\<close>

lemma keys_distinct_sections:
  "keys_distinct Header = distinct (map NavLink.href NAV_LINKS)"
  "keys_distinct Hero = distinct (map ServiceOption.label SERVICE_OPTIONS)"
  "keys_distinct Services = distinct (map Service.id' SERVICES)"
  "keys_distinct Features = distinct (map Feature.id' FEATURES)"
  "keys_distinct Testimonials = distinct (map Testimonial.id' TESTIMONIALS)"
  "keys_distinct (Footer y) =
     (distinct (map FooterColumn.title FOOTER_COLUMNS)
      \<and> list_all (\<lambda>c. distinct (map FooterLink.href (FooterColumn.links c))) FOOTER_COLUMNS
      \<and> distinct (map SocialLink.label SOCIAL_LINKS))"
  by (simp_all add: Header_def Hero_def Services_def Features_def Testimonials_def Footer_def
        attr_def comp_def list.pred_map distinct_map inj_on_def list.pred_True)

lemma distinct_module_literals:
  "distinct (map NavLink.href NAV_LINKS)"
  "distinct (map ServiceOption.label SERVICE_OPTIONS)"
  "distinct (map Service.id' SERVICES)"
  "distinct (map Feature.id' FEATURES)"
  "distinct (map Testimonial.id' TESTIMONIALS)"
  "distinct (map FooterColumn.title FOOTER_COLUMNS)"
  "list_all (\<lambda>c. distinct (map FooterLink.href (FooterColumn.links c))) FOOTER_COLUMNS"
  "distinct (map SocialLink.label SOCIAL_LINKS)"
  by (simp_all add: NAV_LINKS_def SERVICE_OPTIONS_def SERVICES_def FEATURES_def TESTIMONIALS_def
        FOOTER_COLUMNS_def SOCIAL_LINKS_def)

lemma distinct_registry:
  "distinct (map NavLink.href constants_NAV_LINKS)"
  "distinct (map ServiceOption.label constants_SERVICE_OPTIONS)"
  "distinct (map Service.id' constants_SERVICES)"
  "distinct (map Feature.id' constants_FEATURES)"
  "distinct (map Testimonial.id' constants_TESTIMONIALS)"
  "distinct (map FooterColumn.title constants_FOOTER_COLUMNS)"
  "list_all (\<lambda>c. distinct (map FooterLink.href (FooterColumn.links c))) constants_FOOTER_COLUMNS"
  "distinct (map SocialLink.label constants_SOCIAL_LINKS)"
  by (simp_all add: constants_NAV_LINKS_def constants_SERVICE_OPTIONS_def constants_SERVICES_def
        constants_FEATURES_def constants_TESTIMONIALS_def constants_FOOTER_COLUMNS_def
        constants_SOCIAL_LINKS_def)

lemma keys_distinct_Home: "keys_distinct (Home y)"
proof -
  have "attr ''key'' c = None"
    if "c \<in> set [Header, Hero, Services, Features, Testimonials, Footer y]" for c
    using that
    by (auto simp: Header_def Hero_def Services_def Features_def Testimonials_def Footer_def
          attr_def)
  then have "concat (map (\<lambda>c. case attr ''key'' c of Some k \<Rightarrow> [k] | None \<Rightarrow> [])
       [Header, Hero, Services, Features, Testimonials, Footer y]) = []"
    by simp
  then show ?thesis
    using distinct_module_literals by (simp add: Home_def keys_distinct_sections)
qed

text \<open>
  C4. The values used as iteration keys are pairwise distinct within their list:
  \<^verbatim>\<open>link.href\<close> in \<^verbatim>\<open>NAV_LINKS\<close>, \<^verbatim>\<open>service.label\<close> in \<^verbatim>\<open>SERVICE_OPTIONS\<close>,
  \<^verbatim>\<open>service.id\<close> in \<^verbatim>\<open>SERVICES\<close>, \<^verbatim>\<open>feature.id\<close> in \<^verbatim>\<open>FEATURES\<close>,
  \<^verbatim>\<open>testimonial.id\<close> in \<^verbatim>\<open>TESTIMONIALS\<close>, \<^verbatim>\<open>column.title\<close> in \<^verbatim>\<open>FOOTER_COLUMNS\<close>,
  \<^verbatim>\<open>link.href\<close> in the links of each footer column, \<^verbatim>\<open>social.label\<close> in
  \<^verbatim>\<open>SOCIAL_LINKS\<close>; in the lists of the component modules and in those of the
  registry alike. In the rendered page, no two siblings have the same key.
\<close>

theorem C4_iteration_keys_distinct:
  "distinct (map NavLink.href NAV_LINKS)
   \<and> distinct (map ServiceOption.label SERVICE_OPTIONS)
   \<and> distinct (map Service.id' SERVICES)
   \<and> distinct (map Feature.id' FEATURES)
   \<and> distinct (map Testimonial.id' TESTIMONIALS)
   \<and> distinct (map FooterColumn.title FOOTER_COLUMNS)
   \<and> list_all (\<lambda>c. distinct (map FooterLink.href (FooterColumn.links c))) FOOTER_COLUMNS
   \<and> distinct (map SocialLink.label SOCIAL_LINKS)
   \<and> distinct (map NavLink.href constants_NAV_LINKS)
   \<and> distinct (map ServiceOption.label constants_SERVICE_OPTIONS)
   \<and> distinct (map Service.id' constants_SERVICES)
   \<and> distinct (map Feature.id' constants_FEATURES)
   \<and> distinct (map Testimonial.id' constants_TESTIMONIALS)
   \<and> distinct (map FooterColumn.title constants_FOOTER_COLUMNS)
   \<and> list_all (\<lambda>c. distinct (map FooterLink.href (FooterColumn.links c))) constants_FOOTER_COLUMNS
   \<and> distinct (map SocialLink.label constants_SOCIAL_LINKS)
   \<and> keys_distinct (Home y)"
  by (intro conjI distinct_module_literals distinct_registry keys_distinct_Home)

section \<open>The module literals and the registry\<close>






section \<open>The social links\<close>

lemma Footer_socials:
  "strs ''href'' (by_class (Styles ''Footer'' ''socialIcon'') (Footer y)) =
    map (\<lambda>l. Some (SocialLink.href l)) SOCIAL_LINKS"
  "strs ''aria-label'' (by_class (Styles ''Footer'' ''socialIcon'') (Footer y)) =
    map (\<lambda>l. Some (SocialLink.label l)) SOCIAL_LINKS"
  "map tag (by_class (Styles ''Footer'' ''socialIcon'') (Footer y)) = map (\<lambda>l. ''a'') SOCIAL_LINKS"
  "concat (map children (by_class (Styles ''Footer'' ''socials'') (Footer y))) =
    by_class (Styles ''Footer'' ''socialIcon'') (Footer y)"
  by (simp_all add: Footer_def select_simps)

text \<open>
  C10. The social links of the Footer, the children of its \<^verbatim>\<open>socials\<close> block, are
  four anchors, labelled Facebook, Twitter, Instagram and LinkedIn in that order,
  and the \<^verbatim>\<open>href\<close> of each of them is \<^verbatim>\<open>#\<close>; so are the four entries of
  \<^verbatim>\<open>SOCIAL_LINKS\<close> in the registry.
\<close>

theorem C10_social_links_href_hash:
  "strs ''href'' (concat (map children (by_class (Styles ''Footer'' ''socials'') (Footer y)))) =
     [Some ''#'', Some ''#'', Some ''#'', Some ''#'']
   \<and> strs ''aria-label'' (concat (map children (by_class (Styles ''Footer'' ''socials'') (Footer y)))) =
     [Some ''Facebook'', Some ''Twitter'', Some ''Instagram'', Some ''LinkedIn'']
   \<and> map tag (concat (map children (by_class (Styles ''Footer'' ''socials'') (Footer y)))) =
     [''a'', ''a'', ''a'', ''a'']
   \<and> map SocialLink.href SOCIAL_LINKS = [''#'', ''#'', ''#'', ''#'']
   \<and> map SocialLink.href constants_SOCIAL_LINKS = [''#'', ''#'', ''#'', ''#'']"
  unfolding Footer_socials by (simp add: SOCIAL_LINKS_def constants_SOCIAL_LINKS_def)

section \<open>The year in the footer\<close>





section \<open>Runs\<close>

lemma run_handler_keeps:
  "Footer_CURRENT_YEAR (run_handler h s) = Footer_CURRENT_YEAR s"
  "location (run_handler h s) = location s"
  "console (run_handler h s) = console s @ [''Get estimate clicked'']"
  by (cases h; simp)+

lemma run_outputs:
  "fst (run es s) =
    replicate (length (filter (\<lambda>e. e = Render) es)) (Home (Footer_CURRENT_YEAR s))"
proof (induction es arbitrary: s)
  case Nil
  show ?case by simp
next
  case (Cons e es)
  show ?case
  proof (cases e)
    case Render
    then show ?thesis
      using Cons.IH [of s] by (cases "run es s") (simp add: render_def)
  next
    case (Clicked h)
    then show ?thesis
      using Cons.IH [of "run_handler h s"] by (simp add: run_handler_keeps)
  next
    case (Tick y)
    then show ?thesis
      using Cons.IH [of "s\<lparr>clock := y\<rparr>"] by simp
  qed
qed

lemma run_state:
  "location (snd (run es s)) = location s
   \<and> Footer_CURRENT_YEAR (snd (run es s)) = Footer_CURRENT_YEAR s
   \<and> console (snd (run es s)) =
       console s @ replicate (length (filter (\<lambda>e. case e of Clicked h \<Rightarrow> True | _ \<Rightarrow> False) es))
         ''Get estimate clicked''"
proof (induction es arbitrary: s)
  case Nil
  show ?case by simp
next
  case (Cons e es)
  show ?case
  proof (cases e)
    case Render
    then show ?thesis
      using Cons.IH [of s] by (cases "run es s") (simp add: render_def)
  next
    case (Clicked h)
    then show ?thesis
      using Cons.IH [of "run_handler h s"]
      by (simp add: run_handler_keeps replicate_append_same)
  next
    case (Tick y)
    then show ?thesis
      using Cons.IH [of "s\<lparr>clock := y\<rparr>"] by simp
  qed
qed

text \<open>
  C6. Within one run, every render yields the same page: whatever events (renders,
  clicks, the clock moving on to another year) follow the loading of the modules
  at year \<open>y\<close>, the pages rendered during the run are all \<open>Home y\<close>, one for each
  render; and rendering again after a render yields the same tree.
\<close>

theorem C6_render_idempotent_within_run:
  "fst (run es (load y a)) = replicate (length (filter (\<lambda>e. e = Render) es)) (Home y)
   \<and> fst (render (snd (render s))) = fst (render s)
   \<and> fst (run [Render, Render] s) = [fst (render s), fst (render s)]"
  by (simp add: run_outputs) (simp add: load_def render_def)

section \<open>Handlers\<close>

lemma bound_sections:
  "bound Header = []"
  "bound Hero = by_class (Styles ''Hero'' ''estimateBtn'') Hero"
  "bound Services = []"
  "bound Features = []"
  "bound Testimonials = []"
  "bound (Footer y) = []"
  by (simp_all add: Header_def Hero_def Services_def Features_def Testimonials_def Footer_def
        handlers_def select_simps)

lemma estimateBtn:
  "map tag (by_class (Styles ''Hero'' ''estimateBtn'') Hero) = [''button'']"
  "strs ''aria-label'' (by_class (Styles ''Hero'' ''estimateBtn'') Hero) =
    [Some ''Get estimate for delivery'']"
  "map handlers (by_class (Styles ''Hero'' ''estimateBtn'') Hero) =
    [[(''onClick'', handleGetEstimate)]]"
  "map texts (by_class (Styles ''Hero'' ''estimateBtn'') Hero) =
    [[''Get an Estimate '' @ [CHR 0xE2, CHR 0x86, CHR 0x92], ''(takes ~2 mins)'']]"
  by (simp_all add: Hero_def handlers_def select_simps)

lemma bound_Home: "bound (Home y) = by_class (Styles ''Hero'' ''estimateBtn'') Hero"
  by (simp add: Home_def bound_Elem handlers_def bound_sections)

text \<open>
  C7. Rendering leaves the process as it was. In the rendered page exactly one
  element carries a handler: the button of Hero labelled
  \<^verbatim>\<open>Get estimate for delivery\<close> (Get an Estimate), bound by \<^verbatim>\<open>onClick\<close> to
  \<^verbatim>\<open>handleGetEstimate\<close>; no other button or link carries any. The handler appends
  one line to the console and changes nothing else: the address stays, and so does
  what the page renders. Over a whole run the address is the one the run started
  at, and the console has grown by one line for each click.
\<close>

theorem C7_only_handler_logs:
  "snd (render s) = s
   \<and> bound (Home y) = by_class (Styles ''Hero'' ''estimateBtn'') Hero
   \<and> map tag (bound (Home y)) = [''button'']
   \<and> strs ''aria-label'' (bound (Home y)) = [Some ''Get estimate for delivery'']
   \<and> map texts (bound (Home y)) =
       [[''Get an Estimate '' @ [CHR 0xE2, CHR 0x86, CHR 0x92], ''(takes ~2 mins)'']]
   \<and> map handlers (bound (Home y)) = [[(''onClick'', handleGetEstimate)]]
   \<and> run_handler h s = s\<lparr>console := console s @ [''Get estimate clicked'']\<rparr>
   \<and> location (run_handler h s) = location s
   \<and> fst (render (run_handler h s)) = fst (render s)
   \<and> location (snd (run es s)) = location s
   \<and> console (snd (run es s)) =
       console s @ replicate (length (filter (\<lambda>e. case e of Clicked h \<Rightarrow> True | _ \<Rightarrow> False) es))
         ''Get estimate clicked''"
  using run_state [of es s] by (cases h) (simp add: render_def bound_Home estimateBtn)

section \<open>Accessibility labels\<close>

lemma unlabelled_sections:
  "unlabelled Header = concat (map children (by_tag ''nav'' Header))"
  "strs ''href'' (unlabelled Header) = map (\<lambda>l. Some (NavLink.href l)) NAV_LINKS"
  "map texts (unlabelled Header) = map (\<lambda>l. [NavLink.label l]) NAV_LINKS"
  "unlabelled Hero = []"
  "unlabelled Services = []"
  "unlabelled Features = []"
  "unlabelled Testimonials = []"
  "unlabelled (Footer y) = concat (map children (by_tag ''nav'' (Footer y)))"
  "strs ''href'' (unlabelled (Footer y)) =
    concat (map (\<lambda>c. map (\<lambda>l. Some (FooterLink.href l)) (FooterColumn.links c)) FOOTER_COLUMNS)"
  "map texts (unlabelled (Footer y)) =
    concat (map (\<lambda>c. map (\<lambda>l. [FooterLink.label l]) (FooterColumn.links c)) FOOTER_COLUMNS)"
  by (simp_all add: Header_def Hero_def Services_def Features_def Testimonials_def Footer_def
        select_simps)

lemma unlabelled_Home: "unlabelled (Home y) = unlabelled Header @ unlabelled (Footer y)"
  by (simp add: Home_def unlabelled_Elem unlabelled_sections(4-7))

lemma nav_sections:
  "strs ''aria-label'' (by_tag ''nav'' Header) = [Some ''Main navigation'']"
  "by_tag ''nav'' Hero = []"
  "by_tag ''nav'' Services = []"
  "by_tag ''nav'' Features = []"
  "by_tag ''nav'' Testimonials = []"
  "strs ''aria-label'' (by_tag ''nav'' (Footer y)) =
    map (\<lambda>c. Some (FooterColumn.title c @ '' links'')) FOOTER_COLUMNS"
  by (simp_all add: Header_def Hero_def Services_def Features_def Testimonials_def Footer_def
        select_simps)

lemma nav_Home: "by_tag ''nav'' (Home y) = by_tag ''nav'' Header @ by_tag ''nav'' (Footer y)"
  by (simp add: Home_def by_tag_Elem nav_sections)

lemma labelled_sections:
  "strs ''aria-label'' (labelled Header) =
    [Some ''Porter Home'', Some ''Track your order'', Some ''Login to account'']"
  "map tag (labelled Header) = [''Link'', ''button'', ''button'']"
  "strs ''aria-label'' (labelled Hero) = [Some ''Get estimate for delivery'']"
  "map tag (labelled Hero) = [''button'']"
  "labelled Services = []"
  "labelled Features = []"
  "labelled Testimonials = []"
  "strs ''aria-label'' (labelled (Footer y)) = map (\<lambda>l. Some (SocialLink.label l)) SOCIAL_LINKS"
  "map tag (labelled (Footer y)) = map (\<lambda>l. ''a'') SOCIAL_LINKS"
  by (simp_all add: Header_def Hero_def Services_def Features_def Testimonials_def Footer_def
        select_simps)

lemma labelled_Home:
  "labelled (Home y) = labelled Header @ labelled Hero @ labelled (Footer y)"
  by (simp add: Home_def labelled_Elem labelled_sections)

lemma hidden_sections:
  "pictographs Header = hidden Header"
  "pictographs Hero = hidden Hero"
  "pictographs Services = hidden Services"
  "pictographs Features = hidden Features"
  "pictographs Testimonials = hidden Testimonials"
  "pictographs (Footer y) = hidden (Footer y)"
  by (simp_all add: Header_def Hero_def Services_def Features_def Testimonials_def Footer_def
        NAV_LINKS_def SERVICE_OPTIONS_def DEFAULT_CITY_def SERVICES_def FEATURES_def
        TESTIMONIALS_def FOOTER_COLUMNS_def SOCIAL_LINKS_def select_simps)

lemma hidden_classes:
  "map (attr ''className'') (hidden Header) = []"
  "map (attr ''className'') (hidden Hero) =
    Some (Class [Styles ''Hero'' ''cityIcon'']) # None
    # map (\<lambda>opt. Some (Class [Styles ''Hero'' ''serviceIcon''])) SERVICE_OPTIONS"
  "map (attr ''className'') (hidden Services) =
    map (\<lambda>v. Some (Class [Styles ''Services'' ''iconPlaceholder''])) SERVICES"
  "map (attr ''className'') (hidden Features) =
    map (\<lambda>f. Some (Class [Styles ''Features'' ''icon''])) FEATURES"
  "map (attr ''className'') (hidden Testimonials) = []"
  "map (attr ''className'') (hidden (Footer y)) = []"
  by (simp_all add: Header_def Hero_def Services_def Features_def Testimonials_def Footer_def
        attr_def select_simps)

lemma Home_no_pictograph: "\<not> pictograph (Home y)"
  by (simp add: pictograph_def Home_def Header_def)

lemma hidden_Home:
  "hidden (Home y) = hidden Header @ hidden Hero @ hidden Services @ hidden Features
     @ hidden Testimonials @ hidden (Footer y)"
  "pictographs (Home y) = pictographs Header @ pictographs Hero @ pictographs Services
     @ pictographs Features @ pictographs Testimonials @ pictographs (Footer y)"
  using Home_no_pictograph [of y] by (simp_all add: Home_def hidden_Elem pictographs_Elem)

text \<open>
  C8, as the spec states it: every interactive element of the page carries an
  \<^verbatim>\<open>aria-label\<close>. The code refutes it: the \<^verbatim>\<open>Link\<close> that Header renders for the
  first entry of \<^verbatim>\<open>NAV_LINKS\<close> is an interactive element of the page and has no
  \<^verbatim>\<open>aria-label\<close>.
\<close>

theorem C8_nav_link_without_label:
  "Elem ''Link''
     [(''key'', Str ''/enterprise''), (''href'', Str ''/enterprise''),
      (''className'', Class [Styles ''Header'' ''navLink''])]
     [Text ''For Enterprise''] \<in> set (descendants (Home 2025))
   \<and> interactive
       (Elem ''Link''
          [(''key'', Str ''/enterprise''), (''href'', Str ''/enterprise''),
           (''className'', Class [Styles ''Header'' ''navLink''])]
          [Text ''For Enterprise''])
   \<and> attr ''aria-label''
       (Elem ''Link''
          [(''key'', Str ''/enterprise''), (''href'', Str ''/enterprise''),
           (''className'', Class [Styles ''Header'' ''navLink''])]
          [Text ''For Enterprise'']) = None"
proof -
  have "unlabelled Header =
      map (\<lambda>l. Elem ''Link''
                 [(''key'', Str (NavLink.href l)), (''href'', Str (NavLink.href l)),
                  (''className'', Class [Styles ''Header'' ''navLink''])]
                 [Text (NavLink.label l)]) NAV_LINKS"
    by (simp add: Header_def select_simps)
  then have "Elem ''Link''
     [(''key'', Str ''/enterprise''), (''href'', Str ''/enterprise''),
      (''className'', Class [Styles ''Header'' ''navLink''])]
     [Text ''For Enterprise''] \<in> set (unlabelled (Home 2025))"
    by (simp add: unlabelled_Home NAV_LINKS_def)
  then show ?thesis
    by (simp add: unlabelled_def)
qed

text \<open>
  C8, amended. The rendered page is a tree of semantic elements: one \<^verbatim>\<open>header\<close>,
  four \<^verbatim>\<open>section\<close>s, one \<^verbatim>\<open>footer\<close> and five \<^verbatim>\<open>nav\<close>s, every \<^verbatim>\<open>nav\<close> with an
  \<^verbatim>\<open>aria-label\<close>. Every interactive element either carries an \<^verbatim>\<open>aria-label\<close>
  (the logo link, the three buttons, the four social links) or is a text link
  directly inside a labelled \<^verbatim>\<open>nav\<close>, showing the label of its entry: the three
  links of \<^verbatim>\<open>NAV_LINKS\<close> and the fourteen links of the footer columns. Every
  decorative element, that is, every element whose whole content is a pictograph,
  is marked \<^verbatim>\<open>aria-hidden="true"\<close>, and nothing else is: the city icon and the
  arrow of Hero, and the icon of each service option, service and feature.
\<close>

theorem C8_labels_and_hidden_icons:
  "map (\<lambda>t. length (by_tag t (Home y))) [''header'', ''nav'', ''section'', ''footer''] =
     [1, 5, 4, 1]
   \<and> strs ''aria-label'' (by_tag ''nav'' (Home y)) =
     [Some ''Main navigation'', Some ''Company links'', Some ''Services links'',
      Some ''Support links'', Some ''Download App links'']
   \<and> unlabelled (Home y) = concat (map children (by_tag ''nav'' (Home y)))
   \<and> strs ''href'' (unlabelled (Home y)) =
     map (\<lambda>l. Some (NavLink.href l)) NAV_LINKS
     @ concat (map (\<lambda>c. map (\<lambda>l. Some (FooterLink.href l)) (FooterColumn.links c)) FOOTER_COLUMNS)
   \<and> map texts (unlabelled (Home y)) =
     [[''For Enterprise''], [''Delivery Partners''], [''Support''],
      [''About Us''], [''Offers''], [''Careers''], [''Blog''],
      [''City Tempo''], [''Packers & Movers''], [''Driver Partners''], [''Enterprise''],
      [''Help Center''], [''Contact Us''], [''Privacy Policy''], [''Terms of Service''],
      [''Android''], [''iOS'']]
   \<and> strs ''aria-label'' (labelled (Home y)) =
     [Some ''Porter Home'', Some ''Track your order'', Some ''Login to account'',
      Some ''Get estimate for delivery'',
      Some ''Facebook'', Some ''Twitter'', Some ''Instagram'', Some ''LinkedIn'']
   \<and> map tag (labelled (Home y)) =
     [''Link'', ''button'', ''button'', ''button'', ''a'', ''a'', ''a'', ''a'']
   \<and> strs ''aria-label'' (by_tag ''button'' (Home y)) =
     [Some ''Track your order'', Some ''Login to account'', Some ''Get estimate for delivery'']
   \<and> pictographs (Home y) = hidden (Home y)
   \<and> map (attr ''className'') (hidden (Home y)) =
     [Some (Class [Styles ''Hero'' ''cityIcon'']), None,
      Some (Class [Styles ''Hero'' ''serviceIcon'']),
      Some (Class [Styles ''Hero'' ''serviceIcon'']),
      Some (Class [Styles ''Hero'' ''serviceIcon'']),
      Some (Class [Styles ''Services'' ''iconPlaceholder'']),
      Some (Class [Styles ''Services'' ''iconPlaceholder'']),
      Some (Class [Styles ''Services'' ''iconPlaceholder'']),
      Some (Class [Styles ''Services'' ''iconPlaceholder'']),
      Some (Class [Styles ''Features'' ''icon'']),
      Some (Class [Styles ''Features'' ''icon'']),
      Some (Class [Styles ''Features'' ''icon''])]"
proof -
  have tags: "map (\<lambda>t. length (by_tag t (Home y))) [''header'', ''nav'', ''section'', ''footer''] =
      [1, 5, 4, 1]"
    by (simp add: Home_def Header_def Hero_def Services_def Features_def Testimonials_def
          Footer_def FOOTER_COLUMNS_def select_simps)
  have navs: "strs ''aria-label'' (by_tag ''nav'' (Home y)) =
     [Some ''Main navigation'', Some ''Company links'', Some ''Services links'',
      Some ''Support links'', Some ''Download App links'']"
    by (simp add: nav_Home strs_append nav_sections) (simp add: FOOTER_COLUMNS_def)
  have inside: "unlabelled (Home y) = concat (map children (by_tag ''nav'' (Home y)))"
    by (simp add: unlabelled_Home nav_Home unlabelled_sections(1,8))
  have hrefs: "strs ''href'' (unlabelled (Home y)) =
     map (\<lambda>l. Some (NavLink.href l)) NAV_LINKS
     @ concat (map (\<lambda>c. map (\<lambda>l. Some (FooterLink.href l)) (FooterColumn.links c)) FOOTER_COLUMNS)"
    by (simp only: unlabelled_Home strs_append unlabelled_sections(2,9))
  have shown: "map texts (unlabelled (Home y)) =
     [[''For Enterprise''], [''Delivery Partners''], [''Support''],
      [''About Us''], [''Offers''], [''Careers''], [''Blog''],
      [''City Tempo''], [''Packers & Movers''], [''Driver Partners''], [''Enterprise''],
      [''Help Center''], [''Contact Us''], [''Privacy Policy''], [''Terms of Service''],
      [''Android''], [''iOS'']]"
    by (simp add: unlabelled_Home unlabelled_sections(3,10))
      (simp add: NAV_LINKS_def FOOTER_COLUMNS_def)
  have labels: "strs ''aria-label'' (labelled (Home y)) =
     [Some ''Porter Home'', Some ''Track your order'', Some ''Login to account'',
      Some ''Get estimate for delivery'',
      Some ''Facebook'', Some ''Twitter'', Some ''Instagram'', Some ''LinkedIn'']"
    by (simp add: labelled_Home strs_append labelled_sections) (simp add: SOCIAL_LINKS_def)
  have ltags: "map tag (labelled (Home y)) =
     [''Link'', ''button'', ''button'', ''button'', ''a'', ''a'', ''a'', ''a'']"
    by (simp add: labelled_Home labelled_sections) (simp add: SOCIAL_LINKS_def)
  have buttons: "strs ''aria-label'' (by_tag ''button'' (Home y)) =
     [Some ''Track your order'', Some ''Login to account'', Some ''Get estimate for delivery'']"
    by (simp add: Home_def Header_def Hero_def Services_def Features_def Testimonials_def
          Footer_def select_simps)
  have icons: "pictographs (Home y) = hidden (Home y)"
    by (simp only: hidden_Home hidden_sections)
  have classes: "map (attr ''className'') (hidden (Home y)) =
     [Some (Class [Styles ''Hero'' ''cityIcon'']), None,
      Some (Class [Styles ''Hero'' ''serviceIcon'']),
      Some (Class [Styles ''Hero'' ''serviceIcon'']),
      Some (Class [Styles ''Hero'' ''serviceIcon'']),
      Some (Class [Styles ''Services'' ''iconPlaceholder'']),
      Some (Class [Styles ''Services'' ''iconPlaceholder'']),
      Some (Class [Styles ''Services'' ''iconPlaceholder'']),
      Some (Class [Styles ''Services'' ''iconPlaceholder'']),
      Some (Class [Styles ''Features'' ''icon'']),
      Some (Class [Styles ''Features'' ''icon'']),
      Some (Class [Styles ''Features'' ''icon''])]"
    by (simp add: hidden_Home hidden_classes)
      (simp add: SERVICE_OPTIONS_def SERVICES_def FEATURES_def)
  show ?thesis
    by (intro conjI tags navs inside hrefs shown labels ltags buttons icons classes)
qed

end
